theory Spec2Isabelle
  imports Complex_Main
begin

section \<open>Values, errors and numpy arithmetic\<close>

text \<open>
  The numbers of \<^verbatim>\<open>metrics/slp.py\<close> are Python floats and one-dimensional numpy arrays of
  floats. Floats are modelled by the reals: rounding, overflow and the sign of zero are not
  part of the model. A raised exception is a value of \<open>error\<close>.

  \<open>NonFinite\<close> is not an exception. Where an array takes part in a division and a
  divisor element is zero, numpy stores \<^verbatim>\<open>inf\<close> or \<^verbatim>\<open>nan\<close> and emits a RuntimeWarning; these
  values have no counterpart in the reals, so the model stops there with \<open>NonFinite\<close> and does
  not follow them further.
\<close>

datatype error =
    AssertionError string
  | KeyError string
  | IndexError
  | TypeError
  | ValueError
  | ZeroDivisionError
  | NonFinite

datatype number = Scalar real | Array "real list"

datatype pyval = PyNum real | PyList "real list"

definition lit :: "real \<Rightarrow> error + number" where
  "lit r = Inr (Scalar r)"

definition val :: "number \<Rightarrow> error + number" where
  "val v = Inr v"

definition seq :: "error + 'a \<Rightarrow> ('a \<Rightarrow> error + 'b) \<Rightarrow> error + 'b" where
  "seq m f = (case m of Inl e \<Rightarrow> Inl e | Inr a \<Rightarrow> f a)"

text \<open>
  The pairs of elements that a binary numpy operation combines when at least one operand is
  an array: equal lengths are zipped, a scalar or an array of length one is repeated, other
  shapes raise ValueError.
\<close>

fun pairing :: "number \<Rightarrow> number \<Rightarrow> error + (real \<times> real) list" where
  "pairing (Scalar a) (Scalar b) = Inr [(a, b)]"
| "pairing (Scalar a) (Array bs) = Inr (map (\<lambda>b. (a, b)) bs)"
| "pairing (Array as) (Scalar b) = Inr (map (\<lambda>a. (a, b)) as)"
| "pairing (Array as) (Array bs) =
     (if length as = length bs then Inr (zip as bs)
      else if length as = 1 then Inr (map (\<lambda>b. (hd as, b)) bs)
      else if length bs = 1 then Inr (map (\<lambda>a. (a, hd bs)) as)
      else Inl ValueError)"

fun binop :: "(real \<Rightarrow> real \<Rightarrow> real) \<Rightarrow> number \<Rightarrow> number \<Rightarrow> error + number" where
  "binop f (Scalar a) (Scalar b) = Inr (Scalar (f a b))"
| "binop f x y =
     (case pairing x y of Inl e \<Rightarrow> Inl e
      | Inr ps \<Rightarrow> Inr (Array (map (\<lambda>(a, b). f a b) ps)))"

text \<open>
  Division of two Python floats raises ZeroDivisionError on a zero divisor; with an array
  operand numpy divides element by element (see \<open>NonFinite\<close> above). A \<open>Scalar\<close> is a
  Python float: with float arguments and float lookup values, every division of
  \<^verbatim>\<open>metrics/slp.py\<close> between two scalars is one between Python floats.
\<close>

fun divide_num :: "number \<Rightarrow> number \<Rightarrow> error + number" where
  "divide_num (Scalar a) (Scalar b) =
     (if b = 0 then Inl ZeroDivisionError else Inr (Scalar (a / b)))"
| "divide_num x y =
     (case pairing x y of Inl e \<Rightarrow> Inl e
      | Inr ps \<Rightarrow>
          if list_ex (\<lambda>(a, b). b = 0) ps then Inl NonFinite
          else Inr (Array (map (\<lambda>(a, b). a / b) ps)))"

text \<open>
  Python evaluates the left operand, then the right one, then applies the operator: the
  first exception wins.
\<close>

definition lift2 ::
  "(number \<Rightarrow> number \<Rightarrow> error + number) \<Rightarrow> error + number \<Rightarrow> error + number \<Rightarrow>
   error + number" where
  "lift2 f x y =
     (case x of Inl e \<Rightarrow> Inl e
      | Inr a \<Rightarrow> (case y of Inl e \<Rightarrow> Inl e | Inr b \<Rightarrow> f a b))"

definition py_add :: "error + number \<Rightarrow> error + number \<Rightarrow> error + number" where
  "py_add = lift2 (binop (+))"

definition py_sub :: "error + number \<Rightarrow> error + number \<Rightarrow> error + number" where
  "py_sub = lift2 (binop (-))"

definition py_mul :: "error + number \<Rightarrow> error + number \<Rightarrow> error + number" where
  "py_mul = lift2 (binop (*))"

definition py_div :: "error + number \<Rightarrow> error + number \<Rightarrow> error + number" where
  "py_div = lift2 divide_num"

fun map_num :: "(real \<Rightarrow> real) \<Rightarrow> number \<Rightarrow> number" where
  "map_num f (Scalar a) = Scalar (f a)"
| "map_num f (Array as) = Array (map f as)"

definition py_neg :: "error + number \<Rightarrow> error + number" where
  "py_neg x = (case x of Inl e \<Rightarrow> Inl e | Inr a \<Rightarrow> Inr (map_num uminus a))"

definition np_exp :: "error + number \<Rightarrow> error + number" where
  "np_exp x = (case x of Inl e \<Rightarrow> Inl e | Inr a \<Rightarrow> Inr (map_num exp a))"

text \<open>
  \<^verbatim>\<open>np.array([...])\<close> of floats. An element that is itself an array would give a
  two-dimensional or ragged array, which \<open>number\<close> does not have: the model answers ValueError.
\<close>

fun np_array :: "(error + number) list \<Rightarrow> error + number" where
  "np_array [] = Inr (Array [])"
| "np_array (x # xs) =
     (case x of Inl e \<Rightarrow> Inl e
      | Inr (Array _) \<Rightarrow> Inl ValueError
      | Inr (Scalar a) \<Rightarrow>
          (case np_array xs of Inl e \<Rightarrow> Inl e
           | Inr (Scalar _) \<Rightarrow> Inl ValueError
           | Inr (Array as) \<Rightarrow> Inr (Array (a # as))))"

text \<open>\<^verbatim>\<open>xs[j]\<close> on a Python list of floats, for a non-negative index.\<close>

definition getitem :: "real list \<Rightarrow> nat \<Rightarrow> error + number" where
  "getitem xs j = (if j < length xs then Inr (Scalar (xs ! j)) else Inl IndexError)"

text \<open>
  The builtin \<^verbatim>\<open>sum\<close> over a generator: it starts from the integer 0 and adds the terms in
  order, each term being evaluated when it is reached.
\<close>

definition py_sum :: "(error + number) list \<Rightarrow> error + number" where
  "py_sum ts = foldl py_add (lit 0) ts"

section \<open>The constants of \<^verbatim>\<open>utils/constants.py\<close>\<close>

definition SLP :: "string list" where
  "SLP = [''SO2'', ''BC'', ''CH4'']"

definition C1 :: real where
  "C1 = 0.631"

definition C2 :: real where
  "C2 = 0.429"

definition D :: "real list" where
  "D = [8.4, 409.5]"

definition CF :: real where
  "CF = 0.034"

definition SPECS :: "string \<rightharpoonup> (string \<rightharpoonup> pyval)" where
  "SPECS =
    [ ''SO2'' \<mapsto>
        [ ''tau'' \<mapsto> PyNum (4.35 / 365),
          ''tau_std'' \<mapsto> PyNum (sqrt ((0.08 / 365)\<^sup>2 + (0.7 / 365)\<^sup>2)),
          ''fp'' \<mapsto> PyNum (- 0.4),
          ''k'' \<mapsto> PyNum 2.678,
          ''k_std'' \<mapsto> PyNum 0.317 ],
      ''BC'' \<mapsto>
        [ ''tau'' \<mapsto> PyNum (6.8 / 365),
          ''tau_std'' \<mapsto> PyNum (1.8 / 365),
          ''fp'' \<mapsto> PyNum 1,
          ''k'' \<mapsto> PyNum 2.675,
          ''k_std'' \<mapsto> PyNum 0.819 ],
      ''CO2'' \<mapsto>
        [ ''tau'' \<mapsto> PyList [172.9, 18.51, 1.186],
          ''a0'' \<mapsto> PyNum 0.217,
          ''ai'' \<mapsto> PyList [0.259, 0.338, 0.186],
          ''fp'' \<mapsto> PyNum 1,
          ''k'' \<mapsto> PyNum 2.470,
          ''k_std'' \<mapsto> PyNum 0.160 ],
      ''CH4'' \<mapsto>
        [ ''f'' \<mapsto> PyNum 1.24,
          ''tau'' \<mapsto> PyNum (9.7 * 1.24),
          ''tau_std'' \<mapsto> PyNum 1.5,
          ''fp'' \<mapsto> PyNum 1,
          ''k'' \<mapsto> PyNum 2.766,
          ''k_std'' \<mapsto> PyNum 0.383 ] ]"

text \<open>
  \<^verbatim>\<open>constants.SPECS[pollutant][key]\<close>, read as an operand of float arithmetic. A missing key
  raises KeyError. A list entry (only CO2 has them) is no operand of float arithmetic:
  the model answers TypeError at the read.
\<close>

definition spec :: "string \<Rightarrow> string \<Rightarrow> error + number" where
  "spec pollutant key =
     (case SPECS pollutant of None \<Rightarrow> Inl (KeyError pollutant)
      | Some entry \<Rightarrow>
          (case entry key of None \<Rightarrow> Inl (KeyError key)
           | Some (PyNum r) \<Rightarrow> Inr (Scalar r)
           | Some (PyList _) \<Rightarrow> Inl TypeError))"

section \<open>\<^verbatim>\<open>metrics/slp.py\<close>\<close>

text \<open>
  Modelled from the spec: \<^verbatim>\<open>variables.get_scaled_climate_sensitivity\<close> and
  \<^verbatim>\<open>scaling.get_mm_scaling\<close> live in the package \<^verbatim>\<open>simulations\<close>, outside the two
  modules modelled here. The specification gives their interface: each maps a pollutant to a
  two-element sequence of floats. They are parameters of the model, of type
  \<open>string \<Rightarrow> real \<times> real\<close>, and \<open>seq2\<close> is the sequence such a lookup returns.

  The radiative efficiencies are floats. The time horizon, an integer by the docstring, is
  a real in the model, which covers integers and floats alike.
\<close>

definition seq2 :: "real \<times> real \<Rightarrow> real list" where
  "seq2 p = [fst p, snd p]"

text \<open>Lines 76 to 78: one term of the generator summed into \<^verbatim>\<open>iatp\<close>.\<close>

definition iatp_term :: "number \<Rightarrow> number \<Rightarrow> real list \<Rightarrow> real \<Rightarrow> nat \<Rightarrow> error + number" where
  "iatp_term rad_eff tau c_scaled th j =
     py_mul
       (py_div (py_mul (py_mul (val rad_eff) (val tau)) (getitem c_scaled j))
               (py_sub (val tau) (getitem D j)))
       (py_sub
          (py_mul (val tau) (py_sub (lit 1) (np_exp (py_div (py_neg (lit th)) (val tau)))))
          (py_mul (getitem D j)
                  (py_sub (lit 1) (np_exp (py_div (py_neg (lit th)) (getitem D j))))))"

text \<open>Lines 81 to 83: one term of the generator summed into \<^verbatim>\<open>atp\<close>.\<close>

definition atp_term :: "number \<Rightarrow> number \<Rightarrow> real list \<Rightarrow> real \<Rightarrow> nat \<Rightarrow> error + number" where
  "atp_term rad_eff tau c_scaled th j =
     py_mul
       (py_div (py_mul (py_mul (val rad_eff) (val tau)) (getitem c_scaled j))
               (py_sub (val tau) (getitem D j)))
       (py_sub (np_exp (py_div (py_neg (lit th)) (val tau)))
               (np_exp (py_div (py_neg (lit th)) (getitem D j))))"

text \<open>
  Lines 75 to 85 of \<^verbatim>\<open>compute_atp\<close>: the two sums over \<^verbatim>\<open>range(2)\<close> and the returned pair,
  as a function of the values the lines above them have resolved.
\<close>

definition potentials :: "number \<Rightarrow> number \<Rightarrow> real list \<Rightarrow> real \<Rightarrow> error + (number \<times> number)" where
  "potentials rad_eff tau c_scaled th =
     seq (py_sum (map (iatp_term rad_eff tau c_scaled th) [0..<2])) (\<lambda>iatp.
     seq (py_sum (map (atp_term rad_eff tau c_scaled th) [0..<2])) (\<lambda>atp.
     Inr (iatp, atp)))"

definition not_accepted :: "string \<Rightarrow> error" where
  "not_accepted pollutant = AssertionError (pollutant @ '' is not an accepted pollutant'')"

definition compute_atp ::
  "(string \<Rightarrow> real \<times> real) \<Rightarrow> (string \<Rightarrow> real \<times> real) \<Rightarrow>
   string \<Rightarrow> real \<Rightarrow> real \<Rightarrow> bool \<Rightarrow> bool \<Rightarrow> bool \<Rightarrow> error + (number \<times> number)" where
  "compute_atp get_scaled_climate_sensitivity get_mm_scaling
               pollutant rad_eff th c_scaling erf_scaling lifetime_range =
     (if pollutant \<notin> set SLP then Inl (not_accepted pollutant)
      else
        seq (if lifetime_range
             then np_array
                    [ py_sub (spec pollutant ''tau'') (spec pollutant ''tau_std''),
                      spec pollutant ''tau'',
                      py_add (spec pollutant ''tau'') (spec pollutant ''tau_std'') ]
             else spec pollutant ''tau'') (\<lambda>tau.
        let c_scaled = (if c_scaling then seq2 (get_scaled_climate_sensitivity pollutant)
                        else [C1, C2]) in
        seq (if pollutant = ''SO2'' \<and> \<not> erf_scaling
             then py_div (lit rad_eff) (getitem (seq2 (get_mm_scaling pollutant)) 1)
             else lit rad_eff) (\<lambda>rad_eff.
        potentials rad_eff tau c_scaled th)))"

text \<open>
  \<^verbatim>\<open>compute_app\<close>. The two precipitation averages may be floats or arrays; the call of
  \<^verbatim>\<open>compute_atp\<close> leaves the three flags at their defaults.
\<close>

definition compute_app ::
  "(string \<Rightarrow> real \<times> real) \<Rightarrow> (string \<Rightarrow> real \<times> real) \<Rightarrow>
   string \<Rightarrow> real \<Rightarrow> real \<Rightarrow> real \<Rightarrow> number \<Rightarrow> number \<Rightarrow>
   error + (number \<times> number \<times> number \<times> number \<times> number \<times> number)" where
  "compute_app get_scaled_climate_sensitivity get_mm_scaling
               pollutant rad_eff rad_eff_a th rr_precip_avg precip_avg =
     (if pollutant \<notin> set SLP then Inl (not_accepted pollutant)
      else
        seq (spec pollutant ''tau'') (\<lambda>tau.
        seq (spec pollutant ''fp'') (\<lambda>fp.
        seq (spec pollutant ''k'') (\<lambda>k.
        seq (compute_atp get_scaled_climate_sensitivity get_mm_scaling
               pollutant rad_eff th True True False) (\<lambda>(iagtp, agtp).
        seq (py_mul
               (py_mul (lit CF)
                  (py_sub (py_mul (val k) (val iagtp))
                     (py_mul (py_mul (py_mul (val fp) (lit rad_eff_a)) (val tau))
                        (py_sub (lit 1) (np_exp (py_div (py_neg (lit th)) (val tau)))))))
               (py_div (val rr_precip_avg) (val precip_avg))) (\<lambda>iarpp.
        seq (py_mul (py_mul (py_mul (lit CF) (val k)) (val iagtp))
               (py_div (val rr_precip_avg) (val precip_avg))) (\<lambda>slow_iarpp.
        seq (py_mul
               (py_mul
                  (py_mul (py_mul (py_mul (lit CF) (py_neg (val fp))) (lit rad_eff_a)) (val tau))
                  (py_sub (lit 1) (np_exp (py_div (py_neg (lit th)) (val tau)))))
               (py_div (val rr_precip_avg) (val precip_avg))) (\<lambda>fast_iarpp.
        seq (py_mul
               (py_mul (lit CF)
                  (py_sub (py_mul (val k) (val agtp))
                     (py_mul (py_mul (val fp) (lit rad_eff_a))
                        (np_exp (py_div (py_neg (lit th)) (val tau))))))
               (py_div (val rr_precip_avg) (val precip_avg))) (\<lambda>arpp.
        seq (py_mul (py_mul (py_mul (lit CF) (val k)) (val agtp))
               (py_div (val rr_precip_avg) (val precip_avg))) (\<lambda>slow_arpp.
        seq (py_mul
               (py_mul
                  (py_mul (py_mul (lit CF) (py_neg (val fp))) (lit rad_eff_a))
                  (np_exp (py_div (py_neg (lit th)) (val tau))))
               (py_div (val rr_precip_avg) (val precip_avg))) (\<lambda>fast_arpp.
        Inr (iarpp, slow_iarpp, fast_iarpp, arpp, slow_arpp, fast_arpp))))))))))))"

section \<open>The quantities that the claims speak of\<close>

text \<open>
  Lines 64 to 73 of \<^verbatim>\<open>compute_atp\<close> as values: the coefficient list chosen by
  \<^verbatim>\<open>c_scaling\<close>, and the radiative efficiency after the step that only SO2 takes.
\<close>

definition coefficients :: "(string \<Rightarrow> real \<times> real) \<Rightarrow> string \<Rightarrow> bool \<Rightarrow> real list" where
  "coefficients get_scaled_climate_sensitivity pollutant c_scaling =
     (if c_scaling then seq2 (get_scaled_climate_sensitivity pollutant) else [C1, C2])"

definition adjusted_rad_eff :: "(string \<Rightarrow> real \<times> real) \<Rightarrow> string \<Rightarrow> bool \<Rightarrow> real \<Rightarrow> real" where
  "adjusted_rad_eff get_mm_scaling pollutant erf_scaling rad_eff =
     (if pollutant = ''SO2'' \<and> \<not> erf_scaling then rad_eff / snd (get_mm_scaling pollutant)
      else rad_eff)"

text \<open>
  The two formulas of the specification, in its words: a sum over the two
  climate-sensitivity terms \<open>j = 0, 1\<close>, for a real lifetime \<open>tau\<close>.
\<close>

definition iATP_spec :: "real \<Rightarrow> real \<Rightarrow> real list \<Rightarrow> real \<Rightarrow> real" where
  "iATP_spec rad_eff tau c th =
     (\<Sum>j<2. (rad_eff * tau * c ! j / (tau - D ! j)) *
             (tau * (1 - exp (- th / tau)) - D ! j * (1 - exp (- th / D ! j))))"

definition ATP_spec :: "real \<Rightarrow> real \<Rightarrow> real list \<Rightarrow> real \<Rightarrow> real" where
  "ATP_spec rad_eff tau c th =
     (\<Sum>j<2. (rad_eff * tau * c ! j / (tau - D ! j)) *
             (exp (- th / tau) - exp (- th / D ! j)))"

text \<open>
  A lifetime at which no denominator of the two formulas vanishes: it is positive and it
  differs from both decay timescales.
\<close>

definition safe_lifetime :: "real \<Rightarrow> bool" where
  "safe_lifetime t \<longleftrightarrow> 0 < t \<and> t \<noteq> D ! 0 \<and> t \<noteq> D ! 1"

text \<open>The order on results: element by element for arrays of the same length.\<close>

fun number_le :: "number \<Rightarrow> number \<Rightarrow> bool" where
  "number_le (Scalar a) (Scalar b) = (a \<le> b)"
| "number_le (Array as) (Array bs) = list_all2 (\<le>) as bs"
| "number_le _ _ = False"

section \<open>Evaluation lemmas\<close>

lemma seq_simps [simp]: "seq (Inl e) f = Inl e" "seq (Inr a) f = f a"
  by (simp_all add: seq_def)

lemma lift2_simps [simp]:
  "lift2 f (Inl e) y = Inl e"
  "lift2 f (Inr a) (Inl e) = Inl e"
  "lift2 f (Inr a) (Inr b) = f a b"
  by (simp_all add: lift2_def)

lemma range2: "[0..<2] = [0, Suc 0]"
  by (simp add: upt_rec)

lemma sum_lessThan_2: "(\<Sum>j<(2::nat). f j) = f 0 + (f 1 :: real)"
  by (simp add: numeral_2_eq_2)

lemma potentials_scalar:
  assumes "t \<noteq> 0" "t \<noteq> D ! 0" "t \<noteq> D ! 1"
  shows "potentials (Scalar r) (Scalar t) [c0, c1] th =
         Inr (Scalar (iATP_spec r t [c0, c1] th), Scalar (ATP_spec r t [c0, c1] th))"
  using assms
  by (simp add: potentials_def py_sum_def range2 iatp_term_def atp_term_def py_mul_def py_div_def
      py_sub_def py_add_def py_neg_def np_exp_def lit_def val_def getitem_def D_def
      iATP_spec_def ATP_spec_def sum_lessThan_2)

lemma potentials_array3:
  assumes "\<forall>t \<in> set [t1, t2, t3]. t \<noteq> 0 \<and> t \<noteq> D ! 0 \<and> t \<noteq> D ! 1"
  shows "potentials (Scalar r) (Array [t1, t2, t3]) [c0, c1] th =
         Inr (Array (map (\<lambda>t. iATP_spec r t [c0, c1] th) [t1, t2, t3]),
              Array (map (\<lambda>t. ATP_spec r t [c0, c1] th) [t1, t2, t3]))"
  using assms
  by (simp add: potentials_def py_sum_def range2 iatp_term_def atp_term_def py_mul_def py_div_def
      py_sub_def py_add_def py_neg_def np_exp_def lit_def val_def getitem_def D_def
      iATP_spec_def ATP_spec_def sum_lessThan_2)

lemma SLP_cases: "p \<in> set SLP \<Longrightarrow> p = ''SO2'' \<or> p = ''BC'' \<or> p = ''CH4''"
  by (simp add: SLP_def)

lemma spec_SO2:
  "spec ''SO2'' ''tau'' = Inr (Scalar (4.35 / 365))"
  "spec ''SO2'' ''tau_std'' = Inr (Scalar (sqrt ((0.08 / 365)\<^sup>2 + (0.7 / 365)\<^sup>2)))"
  "spec ''SO2'' ''fp'' = Inr (Scalar (- 0.4))"
  "spec ''SO2'' ''k'' = Inr (Scalar 2.678)"
  by (simp_all add: spec_def SPECS_def)

lemma spec_BC:
  "spec ''BC'' ''tau'' = Inr (Scalar (6.8 / 365))"
  "spec ''BC'' ''tau_std'' = Inr (Scalar (1.8 / 365))"
  "spec ''BC'' ''fp'' = Inr (Scalar 1)"
  "spec ''BC'' ''k'' = Inr (Scalar 2.675)"
  by (simp_all add: spec_def SPECS_def)

lemma spec_CH4:
  "spec ''CH4'' ''tau'' = Inr (Scalar (9.7 * 1.24))"
  "spec ''CH4'' ''tau_std'' = Inr (Scalar 1.5)"
  "spec ''CH4'' ''fp'' = Inr (Scalar 1)"
  "spec ''CH4'' ''k'' = Inr (Scalar 2.766)"
  by (simp_all add: spec_def SPECS_def)

lemma SO2_std_bounds:
  "0 < sqrt ((0.08 / 365)\<^sup>2 + (0.7 / 365)\<^sup>2)"
  "sqrt ((0.08 / 365)\<^sup>2 + (0.7 / 365)\<^sup>2) < 1 / 365"
proof -
  show "0 < sqrt ((0.08 / 365)\<^sup>2 + (0.7 / 365)\<^sup>2)"
    by (simp add: power2_eq_square)
  show "sqrt ((0.08 / 365)\<^sup>2 + (0.7 / 365)\<^sup>2) < 1 / 365"
    by (rule real_less_lsqrt) (simp_all add: power2_eq_square)
qed

lemma safe_lifetime_small: "0 < t \<Longrightarrow> t < 8 \<Longrightarrow> safe_lifetime t"
  by (simp add: safe_lifetime_def D_def)

lemma lifetimes_SO2:
  "safe_lifetime (4.35 / 365 - sqrt ((0.08 / 365)\<^sup>2 + (0.7 / 365)\<^sup>2))"
  "safe_lifetime (4.35 / 365)"
  "safe_lifetime (4.35 / 365 + sqrt ((0.08 / 365)\<^sup>2 + (0.7 / 365)\<^sup>2))"
proof -
  define s :: real where "s = sqrt ((0.08 / 365)\<^sup>2 + (0.7 / 365)\<^sup>2)"
  have s: "0 < s" "s < 1 / 365"
    using SO2_std_bounds by (simp_all only: s_def)
  have "safe_lifetime (4.35 / 365 - s)"
    using s by (intro safe_lifetime_small) simp_all
  moreover have "safe_lifetime (4.35 / 365 + s)"
    using s by (intro safe_lifetime_small) simp_all
  ultimately show
    "safe_lifetime (4.35 / 365 - sqrt ((0.08 / 365)\<^sup>2 + (0.7 / 365)\<^sup>2))"
    "safe_lifetime (4.35 / 365 + sqrt ((0.08 / 365)\<^sup>2 + (0.7 / 365)\<^sup>2))"
    by (simp_all only: s_def)
  show "safe_lifetime (4.35 / 365)"
    by (intro safe_lifetime_small) simp_all
qed

lemma lifetimes_BC:
  "safe_lifetime (6.8 / 365 - 1.8 / 365)"
  "safe_lifetime (6.8 / 365)"
  "safe_lifetime (6.8 / 365 + 1.8 / 365)"
  by (simp_all add: safe_lifetime_def D_def)

lemma lifetimes_CH4:
  "safe_lifetime (9.7 * 1.24 - 1.5)"
  "safe_lifetime (9.7 * 1.24)"
  "safe_lifetime (9.7 * 1.24 + 1.5)"
  by (simp_all add: safe_lifetime_def D_def)

lemma lifetimes_SLP:
  assumes "p \<in> set SLP"
  shows "\<exists>tau tau_std. spec p ''tau'' = Inr (Scalar tau) \<and> spec p ''tau_std'' = Inr (Scalar tau_std) \<and>
           safe_lifetime (tau - tau_std) \<and> safe_lifetime tau \<and> safe_lifetime (tau + tau_std)"
proof -
  consider "p = ''SO2''" | "p = ''BC''" | "p = ''CH4''"
    using SLP_cases [OF assms] by blast
  then show ?thesis
  proof cases
    case 1
    then show ?thesis using lifetimes_SO2 spec_SO2(1,2) by blast
  next
    case 2
    then show ?thesis using lifetimes_BC spec_BC(1,2) by blast
  next
    case 3
    then show ?thesis using lifetimes_CH4 spec_CH4(1,2) by blast
  qed
qed

lemma lifetimes_unique:
  assumes "p \<in> set SLP"
    and "spec p ''tau'' = Inr (Scalar tau)"
    and "spec p ''tau_std'' = Inr (Scalar tau_std)"
  shows "safe_lifetime (tau - tau_std)" "safe_lifetime tau" "safe_lifetime (tau + tau_std)"
proof -
  obtain tau' std' where
    "spec p ''tau'' = Inr (Scalar tau')" "spec p ''tau_std'' = Inr (Scalar std')"
    "safe_lifetime (tau' - std')" "safe_lifetime tau'" "safe_lifetime (tau' + std')"
    using lifetimes_SLP [OF assms(1)] by blast
  then show "safe_lifetime (tau - tau_std)" "safe_lifetime tau" "safe_lifetime (tau + tau_std)"
    using assms(2,3) by simp_all
qed

lemma coefficients_pair: "\<exists>c0 c1. coefficients cs p csc = [c0, c1]"
  by (simp add: coefficients_def seq2_def)

lemma resolve_tau:
  "np_array [py_sub (Inr (Scalar tau)) (Inr (Scalar tau_std)), Inr (Scalar tau),
             py_add (Inr (Scalar tau)) (Inr (Scalar tau_std))] =
   Inr (Array [tau - tau_std, tau, tau + tau_std])"
  by (simp add: py_sub_def py_add_def)

lemma resolve_rad_eff:
  "py_div (lit r) (getitem (seq2 (mm p)) 1) =
     (if snd (mm p) = 0 then Inl ZeroDivisionError else lit (r / snd (mm p)))"
  by (simp add: py_div_def lit_def getitem_def seq2_def)

lemma compute_atp_resolved:
  assumes "p \<in> set SLP"
    and "spec p ''tau'' = Inr (Scalar tau)"
    and "spec p ''tau_std'' = Inr (Scalar tau_std)"
  shows "compute_atp cs mm p r th csc erf lr =
          (if p = ''SO2'' \<and> \<not> erf \<and> snd (mm p) = 0 then Inl ZeroDivisionError
           else potentials (Scalar (adjusted_rad_eff mm p erf r))
                  (if lr then Array [tau - tau_std, tau, tau + tau_std] else Scalar tau)
                  (coefficients cs p csc) th)"
proof -
  have "compute_atp cs mm p r th csc erf lr =
          seq (if lr then Inr (Array [tau - tau_std, tau, tau + tau_std]) else Inr (Scalar tau))
            (\<lambda>tau. seq (if p = ''SO2'' \<and> \<not> erf
                           then if snd (mm p) = 0 then Inl ZeroDivisionError
                                else lit (r / snd (mm p))
                           else lit r)
                   (\<lambda>rad_eff. potentials rad_eff tau (coefficients cs p csc) th))"
    unfolding compute_atp_def Let_def coefficients_def
    by (simp only: assms(1) not_True_eq_False if_False assms(2,3) resolve_tau
        resolve_rad_eff)
  then show ?thesis
    by (auto simp add: lit_def adjusted_rad_eff_def)
qed

lemma compute_atp_defined:
  assumes "p \<in> set SLP"
    and "spec p ''tau'' = Inr (Scalar tau)"
    and "spec p ''tau_std'' = Inr (Scalar tau_std)"
    and "p = ''SO2'' \<and> \<not> erf \<longrightarrow> snd (mm p) \<noteq> 0"
  shows "compute_atp cs mm p r th csc erf lr =
          potentials (Scalar (adjusted_rad_eff mm p erf r))
            (if lr then Array [tau - tau_std, tau, tau + tau_std] else Scalar tau)
            (coefficients cs p csc) th"
proof -
  have "\<not> (p = ''SO2'' \<and> \<not> erf \<and> snd (mm p) = 0)"
    using assms(4) by blast
  then show ?thesis
    by (simp only: compute_atp_resolved [OF assms(1,2,3)] if_False)
qed

lemma potentials_safe_scalar:
  assumes "safe_lifetime t"
  shows "potentials (Scalar r) (Scalar t) [c0, c1] th =
         Inr (Scalar (iATP_spec r t [c0, c1] th), Scalar (ATP_spec r t [c0, c1] th))"
  using assms by (intro potentials_scalar) (simp_all add: safe_lifetime_def)

lemma potentials_safe_array:
  assumes "safe_lifetime t1" "safe_lifetime t2" "safe_lifetime t3"
  shows "potentials (Scalar r) (Array [t1, t2, t3]) [c0, c1] th =
         Inr (Array (map (\<lambda>t. iATP_spec r t [c0, c1] th) [t1, t2, t3]),
              Array (map (\<lambda>t. ATP_spec r t [c0, c1] th) [t1, t2, t3]))"
  using assms by (intro potentials_array3) (simp_all add: safe_lifetime_def)

lemma box_derivative:
  fixes u :: real
  assumes "u \<noteq> 0"
  shows "DERIV (\<lambda>z. u * (1 - exp (- z / u))) z :> exp (- z / u)"
  using assms by (auto intro!: derivative_eq_intros)

lemma term_nondecreasing:
  fixes r t c d x y :: real
  assumes "0 < t" "0 < d" "t \<noteq> d" "0 \<le> r" "0 \<le> c" "0 \<le> x" "x \<le> y"
  shows "(r * t * c / (t - d)) * (t * (1 - exp (- x / t)) - d * (1 - exp (- x / d)))
       \<le> (r * t * c / (t - d)) * (t * (1 - exp (- y / t)) - d * (1 - exp (- y / d)))"
proof -
  let ?k = "r * t * c / (t - d)"
  let ?h = "\<lambda>z. ?k * (t * (1 - exp (- z / t)) - d * (1 - exp (- z / d)))"
  have slope: "\<exists>s. DERIV ?h z :> s \<and> 0 \<le> s" if "x \<le> z" for z
  proof (intro exI conjI)
    have "DERIV (\<lambda>z. t * (1 - exp (- z / t)) - d * (1 - exp (- z / d))) z
            :> exp (- z / t) - exp (- z / d)"
      by (intro DERIV_diff box_derivative) (use assms(1,2) in simp_all)
    then show "DERIV ?h z :> ?k * (exp (- z / t) - exp (- z / d))"
      by (rule DERIV_cmult)
    have z: "0 \<le> z" using that assms(6) by simp
    show "0 \<le> ?k * (exp (- z / t) - exp (- z / d))"
    proof (cases "t < d")
      case True
      have "z / d \<le> z / t"
        using z assms(1) True by (simp add: frac_le)
      then have "exp (- z / t) - exp (- z / d) \<le> 0" by simp
      moreover have "?k \<le> 0"
        using assms(1,4,5) True by (simp add: divide_nonneg_neg)
      ultimately show ?thesis by (rule mult_nonpos_nonpos [rotated])
    next
      case False
      then have lt: "d < t" using assms(3) by simp
      have "z / t \<le> z / d"
        using z assms(2) lt by (simp add: frac_le)
      then have "0 \<le> exp (- z / t) - exp (- z / d)" by simp
      moreover have "0 \<le> ?k"
        using assms(1,4,5) lt by simp
      ultimately show ?thesis by (rule mult_nonneg_nonneg [rotated])
    qed
  qed
  show ?thesis
    by (rule DERIV_nonneg_imp_nondecreasing [of x y ?h, OF assms(7)]) (use slope in blast)
qed

lemma iATP_spec_nondecreasing:
  assumes "safe_lifetime t" "0 \<le> r" "0 \<le> c0" "0 \<le> c1" "0 \<le> x" "x \<le> y"
  shows "iATP_spec r t [c0, c1] x \<le> iATP_spec r t [c0, c1] y"
proof -
  have t: "0 < t" "t \<noteq> 8.4" "t \<noteq> 409.5"
    using assms(1) by (simp_all add: safe_lifetime_def D_def)
  have "(r * t * c0 / (t - 8.4)) * (t * (1 - exp (- x / t)) - 8.4 * (1 - exp (- x / 8.4)))
      \<le> (r * t * c0 / (t - 8.4)) * (t * (1 - exp (- y / t)) - 8.4 * (1 - exp (- y / 8.4)))"
    using t assms by (intro term_nondecreasing) simp_all
  moreover
  have "(r * t * c1 / (t - 409.5)) * (t * (1 - exp (- x / t)) - 409.5 * (1 - exp (- x / 409.5)))
      \<le> (r * t * c1 / (t - 409.5)) * (t * (1 - exp (- y / t)) - 409.5 * (1 - exp (- y / 409.5)))"
    using t assms by (intro term_nondecreasing) simp_all
  ultimately show ?thesis
    by (simp only: iATP_spec_def sum_lessThan_2 D_def nth_Cons_0 nth_Cons_Suc One_nat_def add_mono)
qed

lemma fields_SLP:
  assumes "p \<in> set SLP"
  shows "\<exists>fp k. spec p ''fp'' = Inr (Scalar fp) \<and> spec p ''k'' = Inr (Scalar k)"
  using SLP_cases [OF assms] spec_SO2(3,4) spec_BC(3,4) spec_CH4(3,4) by blast

lemma scalar_times: "py_mul (Inr (Scalar x)) (Inr s) = Inr (map_num ((*) x) s)"
  by (cases s) (simp_all add: py_mul_def comp_def)

lemma scalar_times_ratio:
  "py_mul (Inr (Scalar x)) (py_div (val rr) (val precip)) =
     (case py_div (val rr) (val precip) of Inl e \<Rightarrow> Inl e
      | Inr s \<Rightarrow> Inr (map_num ((*) x) s))"
  by (cases "py_div (val rr) (val precip)") (simp_all add: scalar_times, simp add: py_mul_def)

lemma compute_app_resolved:
  assumes "p \<in> set SLP"
    and "spec p ''tau'' = Inr (Scalar tau)"
    and "spec p ''fp'' = Inr (Scalar fp)"
    and "spec p ''k'' = Inr (Scalar k)"
    and "tau \<noteq> 0"
    and "compute_atp cs mm p r th True True False = Inr (Scalar i, Scalar a)"
  shows "compute_app cs mm p r ra th rr precip =
          (case py_div (val rr) (val precip) of Inl e \<Rightarrow> Inl e
           | Inr s \<Rightarrow>
               Inr (map_num ((*) (CF * (k * i - fp * ra * tau * (1 - exp (- th / tau))))) s,
                    map_num ((*) (CF * k * i)) s,
                    map_num ((*) (CF * (- fp) * ra * tau * (1 - exp (- th / tau)))) s,
                    map_num ((*) (CF * (k * a - fp * ra * exp (- th / tau)))) s,
                    map_num ((*) (CF * k * a)) s,
                    map_num ((*) (CF * (- fp) * ra * exp (- th / tau))) s))"
proof -
  have inner:
    "py_mul (lit CF)
       (py_sub (py_mul (val (Scalar k)) (val (Scalar i)))
          (py_mul (py_mul (py_mul (val (Scalar fp)) (lit ra)) (val (Scalar tau)))
             (py_sub (lit 1) (np_exp (py_div (py_neg (lit th)) (val (Scalar tau)))))))
     = Inr (Scalar (CF * (k * i - fp * ra * tau * (1 - exp (- th / tau)))))"
    "py_mul (py_mul (lit CF) (val (Scalar k))) (val (Scalar i)) = Inr (Scalar (CF * k * i))"
    "py_mul
       (py_mul (py_mul (py_mul (lit CF) (py_neg (val (Scalar fp)))) (lit ra)) (val (Scalar tau)))
       (py_sub (lit 1) (np_exp (py_div (py_neg (lit th)) (val (Scalar tau)))))
     = Inr (Scalar (CF * (- fp) * ra * tau * (1 - exp (- th / tau))))"
    "py_mul (lit CF)
       (py_sub (py_mul (val (Scalar k)) (val (Scalar a)))
          (py_mul (py_mul (val (Scalar fp)) (lit ra))
             (np_exp (py_div (py_neg (lit th)) (val (Scalar tau))))))
     = Inr (Scalar (CF * (k * a - fp * ra * exp (- th / tau))))"
    "py_mul (py_mul (lit CF) (val (Scalar k))) (val (Scalar a)) = Inr (Scalar (CF * k * a))"
    "py_mul (py_mul (py_mul (lit CF) (py_neg (val (Scalar fp)))) (lit ra))
       (np_exp (py_div (py_neg (lit th)) (val (Scalar tau))))
     = Inr (Scalar (CF * (- fp) * ra * exp (- th / tau)))"
    using assms(5)
    by (simp_all add: py_mul_def py_sub_def py_div_def py_neg_def np_exp_def lit_def val_def)
  show ?thesis
    unfolding compute_app_def
    by (simp only: assms(1,2,3,4,6) not_True_eq_False if_False seq_simps prod.case inner
        scalar_times_ratio)
       (simp split: sum.splits)
qed

lemma compute_atp_default:
  assumes "p \<in> set SLP"
  shows "\<exists>i a. compute_atp cs mm p r th True True False = Inr (Scalar i, Scalar a)"
proof -
  obtain tau tau_std where
    t: "spec p ''tau'' = Inr (Scalar tau)" "spec p ''tau_std'' = Inr (Scalar tau_std)"
    and safe: "safe_lifetime tau"
    using lifetimes_SLP [OF assms] by blast
  obtain c0 c1 where c: "coefficients cs p True = [c0, c1]"
    using coefficients_pair by blast
  show ?thesis
    by (simp add: compute_atp_resolved [OF assms t] c potentials_safe_scalar [OF safe])
qed

lemma iATP_spec_zero: "iATP_spec r t [c0, c1] 0 = 0"
  by (simp add: iATP_spec_def sum_lessThan_2)

lemma ATP_spec_zero: "ATP_spec r t [c0, c1] 0 = 0"
  by (simp add: ATP_spec_def sum_lessThan_2)

lemma zip_maps: "zip (map f xs) (map g xs) = map (\<lambda>x. (f x, g x)) xs"
  by (induction xs) simp_all

lemma add_scaled:
  "py_add (val (map_num ((*) x) s)) (val (map_num ((*) y) s)) = Inr (map_num ((*) (x + y)) s)"
  by (cases s) (simp_all add: py_add_def val_def zip_maps comp_def distrib_right)

text \<open>
  The decomposition of \<^verbatim>\<open>compute_app\<close> over the reals: where the ratio of the two
  precipitation averages is defined, the integrated potential is the sum of its slow and
  fast components, and so is the pulse potential. This is a fact of exact arithmetic only.
  Line 153 evaluates the combined expression and lines 156 and 159 the two components, so
  in floating point the two sides are rounded differently; how far they may differ is a
  question about rounding, which this model does not have.
\<close>

lemma decomposition_over_reals:
  assumes "pollutant \<in> set SLP"
    and "py_div (val rr_precip_avg) (val precip_avg) = Inr scale"
  shows "\<exists>integrated_arpp slow_integrated fast_integrated pulse_arpp slow_pulse fast_pulse.
           compute_app cs mm pollutant rad_eff rad_eff_a th rr_precip_avg precip_avg =
             Inr (integrated_arpp, slow_integrated, fast_integrated,
                  pulse_arpp, slow_pulse, fast_pulse)
         \<and> py_add (val slow_integrated) (val fast_integrated) = Inr integrated_arpp
         \<and> py_add (val slow_pulse) (val fast_pulse) = Inr pulse_arpp"
proof -
  obtain tau tau_std where
    t: "spec pollutant ''tau'' = Inr (Scalar tau)" "spec pollutant ''tau_std'' = Inr (Scalar tau_std)"
    and safe: "safe_lifetime tau"
    using lifetimes_SLP [OF assms(1)] by blast
  obtain fp k where f: "spec pollutant ''fp'' = Inr (Scalar fp)" "spec pollutant ''k'' = Inr (Scalar k)"
    using fields_SLP [OF assms(1)] by blast
  obtain c0 c1 where c: "coefficients cs pollutant True = [c0, c1]"
    using coefficients_pair by blast
  have atp: "compute_atp cs mm pollutant rad_eff th True True False =
          Inr (Scalar (iATP_spec rad_eff tau [c0, c1] th), Scalar (ATP_spec rad_eff tau [c0, c1] th))"
    using safe
    by (simp add: compute_atp_resolved [OF assms(1) t] c potentials_safe_scalar
        adjusted_rad_eff_def)
  have nz: "tau \<noteq> 0"
    using safe by (simp add: safe_lifetime_def)
  show ?thesis
    by (simp add: compute_app_resolved [OF assms(1) t(1) f nz atp] assms(2) add_scaled
        algebra_simps)
qed

section \<open>The claims\<close>

text \<open>
  C1. For a pollutant of SO2, BC, CH4, with \<open>tau\<close> and \<open>tau_std\<close> the entries of the constants
  table, \<^verbatim>\<open>compute_atp\<close> returns the pair of the two formulas of the specification, each a
  sum of exactly two terms: at \<open>tau\<close> without \<^verbatim>\<open>lifetime_range\<close>, and element by element at
  the three lifetimes \<open>tau - tau_std\<close>, \<open>tau\<close>, \<open>tau + tau_std\<close> with it, giving two arrays of
  three elements. The coefficients and the radiative efficiency in the formulas are the ones
  that lines 64 to 73 resolve. The result holds for every time horizon, not only for
  \<open>th \<ge> 0\<close>. The one thing asked of the absent lookup is that the SO2 scaling factor, where
  the code divides by it, is not zero.
\<close>

theorem compute_atp_formulas:
  assumes "pollutant \<in> set SLP"
    and "spec pollutant ''tau'' = Inr (Scalar tau)"
    and "spec pollutant ''tau_std'' = Inr (Scalar tau_std)"
    and "pollutant = ''SO2'' \<and> \<not> erf_scaling \<longrightarrow> snd (mm pollutant) \<noteq> 0"
  shows "compute_atp cs mm pollutant rad_eff th c_scaling erf_scaling False =
           Inr (Scalar (iATP_spec (adjusted_rad_eff mm pollutant erf_scaling rad_eff) tau
                          (coefficients cs pollutant c_scaling) th),
                Scalar (ATP_spec (adjusted_rad_eff mm pollutant erf_scaling rad_eff) tau
                          (coefficients cs pollutant c_scaling) th))
       \<and> compute_atp cs mm pollutant rad_eff th c_scaling erf_scaling True =
           Inr (Array (map (\<lambda>t. iATP_spec (adjusted_rad_eff mm pollutant erf_scaling rad_eff) t
                                  (coefficients cs pollutant c_scaling) th)
                         [tau - tau_std, tau, tau + tau_std]),
                Array (map (\<lambda>t. ATP_spec (adjusted_rad_eff mm pollutant erf_scaling rad_eff) t
                                  (coefficients cs pollutant c_scaling) th)
                         [tau - tau_std, tau, tau + tau_std]))"
proof -
  obtain c0 c1 where c: "coefficients cs pollutant c_scaling = [c0, c1]"
    using coefficients_pair by blast
  note safe = lifetimes_unique [OF assms(1,2,3)]
  show ?thesis
    by (simp add: compute_atp_defined [where mm = mm, OF assms] c potentials_safe_scalar [OF safe(2)]
        potentials_safe_array [OF safe])
qed

theorem compute_atp_formulas_witness:
  "''CH4'' \<in> set SLP
   \<and> spec ''CH4'' ''tau'' = Inr (Scalar (9.7 * 1.24))
   \<and> spec ''CH4'' ''tau_std'' = Inr (Scalar 1.5)
   \<and> compute_atp (\<lambda>p. (0.5, 0.4)) (\<lambda>p. (1, 2)) ''CH4'' 3 20 True False False =
       Inr (Scalar (iATP_spec 3 (9.7 * 1.24) [0.5, 0.4] 20),
            Scalar (ATP_spec 3 (9.7 * 1.24) [0.5, 0.4] 20))
   \<and> compute_atp (\<lambda>p. (0.5, 0.4)) (\<lambda>p. (1, 2)) ''SO2'' 3 20 False False True =
       Inr (Array (map (\<lambda>t. iATP_spec (3 / 2) t [C1, C2] 20)
                     [4.35 / 365 - sqrt ((0.08 / 365)\<^sup>2 + (0.7 / 365)\<^sup>2), 4.35 / 365,
                      4.35 / 365 + sqrt ((0.08 / 365)\<^sup>2 + (0.7 / 365)\<^sup>2)]),
            Array (map (\<lambda>t. ATP_spec (3 / 2) t [C1, C2] 20)
                     [4.35 / 365 - sqrt ((0.08 / 365)\<^sup>2 + (0.7 / 365)\<^sup>2), 4.35 / 365,
                      4.35 / 365 + sqrt ((0.08 / 365)\<^sup>2 + (0.7 / 365)\<^sup>2)]))"
proof -
  have a: "''CH4'' \<in> set SLP" and b: "''SO2'' \<in> set SLP"
    by (simp_all add: SLP_def)
  show ?thesis
    using a spec_CH4(1,2)
      compute_atp_formulas [where mm = "\<lambda>p. (1, 2)" and cs = "\<lambda>p. (0.5, 0.4)"
        and rad_eff = 3 and th = 20 and c_scaling = True and erf_scaling = False,
        OF a spec_CH4(1,2)]
      compute_atp_formulas [where mm = "\<lambda>p. (1, 2)" and cs = "\<lambda>p. (0.5, 0.4)"
        and rad_eff = 3 and th = 20 and c_scaling = False and erf_scaling = False,
        OF b spec_SO2(1,2)]
    by (simp add: adjusted_rad_eff_def coefficients_def seq2_def)
qed

text \<open>
  C2. For a pollutant of SO2, BC, CH4 and float precipitation averages with
  \<open>precip_avg \<noteq> 0\<close>, \<^verbatim>\<open>compute_app\<close> takes \<open>(iATP, ATP)\<close> from \<^verbatim>\<open>compute_atp\<close> called with
  \<^verbatim>\<open>c_scaling=True\<close>, \<^verbatim>\<open>erf_scaling=True\<close>, \<^verbatim>\<open>lifetime_range=False\<close>, and its slow and fast
  components are \<open>CF k iATP scale\<close>, \<open>CF (- fp) rad_eff_a tau (1 - exp (- th / tau)) scale\<close>,
  \<open>CF k ATP scale\<close> and \<open>CF (- fp) rad_eff_a exp (- th / tau) scale\<close>, where
  \<open>scale = rr_precip_avg / precip_avg\<close>, \<open>CF = 0.034\<close>, and \<open>tau\<close>, \<open>fp\<close>, \<open>k\<close> are the
  pollutant's entries of the constants table.
\<close>

theorem compute_app_components:
  assumes "pollutant \<in> set SLP"
    and "spec pollutant ''tau'' = Inr (Scalar tau)"
    and "spec pollutant ''fp'' = Inr (Scalar fp)"
    and "spec pollutant ''k'' = Inr (Scalar k)"
    and "precip_avg \<noteq> 0"
  shows "\<exists>iATP ATP integrated_arpp pulse_arpp.
           compute_atp cs mm pollutant rad_eff th True True False = Inr (Scalar iATP, Scalar ATP)
         \<and> compute_app cs mm pollutant rad_eff rad_eff_a th (Scalar rr_precip_avg) (Scalar precip_avg) =
             Inr (integrated_arpp,
                  Scalar (CF * k * iATP * (rr_precip_avg / precip_avg)),
                  Scalar (CF * (- fp) * rad_eff_a * tau * (1 - exp (- th / tau)) *
                          (rr_precip_avg / precip_avg)),
                  pulse_arpp,
                  Scalar (CF * k * ATP * (rr_precip_avg / precip_avg)),
                  Scalar (CF * (- fp) * rad_eff_a * exp (- th / tau) *
                          (rr_precip_avg / precip_avg)))"
proof -
  obtain tau' tau_std where
    t: "spec pollutant ''tau'' = Inr (Scalar tau')" "spec pollutant ''tau_std'' = Inr (Scalar tau_std)"
    and safe: "safe_lifetime tau'"
    using lifetimes_SLP [OF assms(1)] by blast
  have same: "tau' = tau"
    using t(1) assms(2) by simp
  obtain c0 c1 where c: "coefficients cs pollutant True = [c0, c1]"
    using coefficients_pair by blast
  have atp: "compute_atp cs mm pollutant rad_eff th True True False =
          Inr (Scalar (iATP_spec rad_eff tau [c0, c1] th), Scalar (ATP_spec rad_eff tau [c0, c1] th))"
    using safe
    by (simp add: compute_atp_resolved [OF assms(1) t] c potentials_safe_scalar
        adjusted_rad_eff_def same)
  have nz: "tau \<noteq> 0"
    using safe same by (simp add: safe_lifetime_def)
  show ?thesis
    using assms(5)
    by (simp add: atp compute_app_resolved [OF assms(1,2,3,4) nz atp] py_div_def val_def)
qed

theorem compute_app_components_witness:
  "''BC'' \<in> set SLP
   \<and> spec ''BC'' ''tau'' = Inr (Scalar (6.8 / 365))
   \<and> spec ''BC'' ''fp'' = Inr (Scalar 1)
   \<and> spec ''BC'' ''k'' = Inr (Scalar 2.675)
   \<and> (5::real) \<noteq> 0
   \<and> (\<exists>iATP ATP integrated_arpp pulse_arpp.
           compute_atp (\<lambda>p. (0.5, 0.4)) (\<lambda>p. (1, 2)) ''BC'' 3 20 True True False =
             Inr (Scalar iATP, Scalar ATP)
         \<and> compute_app (\<lambda>p. (0.5, 0.4)) (\<lambda>p. (1, 2)) ''BC'' 3 2 20 (Scalar 7) (Scalar 5) =
             Inr (integrated_arpp,
                  Scalar (CF * 2.675 * iATP * (7 / 5)),
                  Scalar (CF * (- 1) * 2 * (6.8 / 365) * (1 - exp (- 20 / (6.8 / 365))) * (7 / 5)),
                  pulse_arpp,
                  Scalar (CF * 2.675 * ATP * (7 / 5)),
                  Scalar (CF * (- 1) * 2 * exp (- 20 / (6.8 / 365)) * (7 / 5))))"
proof -
  have a: "''BC'' \<in> set SLP"
    by (simp add: SLP_def)
  have b: "(5::real) \<noteq> 0"
    by simp
  show ?thesis
    using a b spec_BC(1,3,4)
      compute_app_components [where mm = "\<lambda>p. (1, 2)" and cs = "\<lambda>p. (0.5, 0.4)"
        and rad_eff = 3 and rad_eff_a = 2 and th = 20 and rr_precip_avg = 7,
        OF a spec_BC(1,3,4) b]
    by simp
qed



text \<open>
  C5. A pollutant argument outside SO2, BC, CH4 (such as \<^verbatim>\<open>XYZ\<close> or \<^verbatim>\<open>CO2\<close>) makes both
  \<^verbatim>\<open>compute_atp\<close> and \<^verbatim>\<open>compute_app\<close> fail at their first statement, whatever the other
  arguments and the two lookups are: no lookup is made and no arithmetic is done, and no
  number is returned. The error is the AssertionError of the \<^verbatim>\<open>assert\<close> statement, with the
  message naming the pollutant; it is what the specification calls InvalidPollutant.
\<close>

theorem invalid_pollutant_rejected:
  assumes "pollutant \<notin> set SLP"
  shows "compute_atp cs mm pollutant rad_eff th c_scaling erf_scaling lifetime_range =
           Inl (AssertionError (pollutant @ '' is not an accepted pollutant''))
       \<and> compute_app cs mm pollutant rad_eff rad_eff_a th rr_precip_avg precip_avg =
           Inl (AssertionError (pollutant @ '' is not an accepted pollutant''))"
  using assms by (simp add: compute_atp_def compute_app_def not_accepted_def)

theorem invalid_pollutant_rejected_witness:
  "''XYZ'' \<notin> set SLP \<and> ''CO2'' \<notin> set SLP
   \<and> compute_atp (\<lambda>p. (1, 1)) (\<lambda>p. (1, 0)) ''XYZ'' 1 20 True False True =
       Inl (AssertionError ''XYZ is not an accepted pollutant'')
   \<and> compute_app (\<lambda>p. (1, 1)) (\<lambda>p. (1, 0)) ''CO2'' 1 1 20 (Scalar 1) (Scalar 0) =
       Inl (AssertionError ''CO2 is not an accepted pollutant'')"
proof -
  have a: "''XYZ'' \<notin> set SLP" and b: "''CO2'' \<notin> set SLP"
    by (simp_all add: SLP_def)
  show ?thesis
    using a b invalid_pollutant_rejected [OF a] invalid_pollutant_rejected [OF b]
    by simp
qed

text \<open>
  C7. For a pollutant of SO2, BC, CH4 and the same other arguments, \<^verbatim>\<open>compute_atp\<close> with
  \<^verbatim>\<open>lifetime_range=True\<close> returns two arrays of three elements. Their middle elements are
  exactly the two floats returned with \<^verbatim>\<open>lifetime_range=False\<close>; their first and last
  elements are what lines 76 to 83 give at the float lifetimes \<open>tau - tau_std\<close> and
  \<open>tau + tau_std\<close>, so the three elements stand in the order lower, nominal, upper.
\<close>

theorem lifetime_range_nominal:
  assumes "pollutant \<in> set SLP"
    and "spec pollutant ''tau'' = Inr (Scalar tau)"
    and "spec pollutant ''tau_std'' = Inr (Scalar tau_std)"
    and "pollutant = ''SO2'' \<and> \<not> erf_scaling \<longrightarrow> snd (mm pollutant) \<noteq> 0"
  shows "\<exists>i_low i_nominal i_high a_low a_nominal a_high.
           compute_atp cs mm pollutant rad_eff th c_scaling erf_scaling True =
             Inr (Array [i_low, i_nominal, i_high], Array [a_low, a_nominal, a_high])
         \<and> compute_atp cs mm pollutant rad_eff th c_scaling erf_scaling False =
             Inr (Scalar i_nominal, Scalar a_nominal)
         \<and> potentials (Scalar (adjusted_rad_eff mm pollutant erf_scaling rad_eff))
             (Scalar (tau - tau_std)) (coefficients cs pollutant c_scaling) th =
             Inr (Scalar i_low, Scalar a_low)
         \<and> potentials (Scalar (adjusted_rad_eff mm pollutant erf_scaling rad_eff))
             (Scalar (tau + tau_std)) (coefficients cs pollutant c_scaling) th =
             Inr (Scalar i_high, Scalar a_high)"
proof -
  obtain c0 c1 where c: "coefficients cs pollutant c_scaling = [c0, c1]"
    using coefficients_pair by blast
  note safe = lifetimes_unique [OF assms(1,2,3)]
  show ?thesis
    by (simp add: compute_atp_defined [where mm = mm, OF assms] c
        potentials_safe_scalar [OF safe(1)] potentials_safe_scalar [OF safe(2)]
        potentials_safe_scalar [OF safe(3)] potentials_safe_array [OF safe])
qed

theorem lifetime_range_nominal_witness:
  "''BC'' \<in> set SLP
   \<and> spec ''BC'' ''tau'' = Inr (Scalar (6.8 / 365))
   \<and> spec ''BC'' ''tau_std'' = Inr (Scalar (1.8 / 365))
   \<and> (\<exists>i_low i_nominal i_high a_low a_nominal a_high.
           compute_atp (\<lambda>p. (0.5, 0.4)) (\<lambda>p. (1, 2)) ''BC'' 3 20 True True True =
             Inr (Array [i_low, i_nominal, i_high], Array [a_low, a_nominal, a_high])
         \<and> compute_atp (\<lambda>p. (0.5, 0.4)) (\<lambda>p. (1, 2)) ''BC'' 3 20 True True False =
             Inr (Scalar i_nominal, Scalar a_nominal)
         \<and> potentials (Scalar 3) (Scalar (6.8 / 365 - 1.8 / 365)) [0.5, 0.4] 20 =
             Inr (Scalar i_low, Scalar a_low)
         \<and> potentials (Scalar 3) (Scalar (6.8 / 365 + 1.8 / 365)) [0.5, 0.4] 20 =
             Inr (Scalar i_high, Scalar a_high))"
proof -
  have a: "''BC'' \<in> set SLP"
    by (simp add: SLP_def)
  show ?thesis
    using a spec_BC(1,2)
      lifetime_range_nominal [where mm = "\<lambda>p. (1, 2)" and cs = "\<lambda>p. (0.5, 0.4)"
        and rad_eff = 3 and th = 20 and c_scaling = True and erf_scaling = True,
        OF a spec_BC(1,2)]
    by (simp add: adjusted_rad_eff_def coefficients_def seq2_def)
qed

text \<open>
  C8. For a pollutant of SO2, BC, CH4, \<open>rad_eff > 0\<close> and fixed flags, the integrated
  potential returned by \<^verbatim>\<open>compute_atp\<close> does not decrease when the time horizon grows from
  \<open>th \<ge> 0\<close> to \<open>th' \<ge> th\<close>; with \<^verbatim>\<open>lifetime_range\<close> this holds for each of the three
  elements. The values of the two absent lookups are taken as physical quantities: where
  they are used, the climate-sensitivity coefficients are not negative and the SO2 scaling
  factor is positive. The constants \<open>C1\<close>, \<open>C2\<close> used otherwise are positive.
\<close>

theorem iatp_nondecreasing:
  assumes "pollutant \<in> set SLP"
    and "0 < rad_eff"
    and "c_scaling \<longrightarrow> 0 \<le> fst (cs pollutant) \<and> 0 \<le> snd (cs pollutant)"
    and "pollutant = ''SO2'' \<and> \<not> erf_scaling \<longrightarrow> 0 < snd (mm pollutant)"
    and "0 \<le> th" and "th \<le> th'"
  shows "\<exists>iatp atp iatp' atp'.
           compute_atp cs mm pollutant rad_eff th c_scaling erf_scaling lifetime_range =
             Inr (iatp, atp)
         \<and> compute_atp cs mm pollutant rad_eff th' c_scaling erf_scaling lifetime_range =
             Inr (iatp', atp')
         \<and> number_le iatp iatp'"
proof -
  obtain tau tau_std where
    t: "spec pollutant ''tau'' = Inr (Scalar tau)" "spec pollutant ''tau_std'' = Inr (Scalar tau_std)"
    and safe: "safe_lifetime (tau - tau_std)" "safe_lifetime tau" "safe_lifetime (tau + tau_std)"
    using lifetimes_SLP [OF assms(1)] by blast
  define c0 where "c0 = (if c_scaling then fst (cs pollutant) else C1)"
  define c1 where "c1 = (if c_scaling then snd (cs pollutant) else C2)"
  have c: "coefficients cs pollutant c_scaling = [c0, c1]"
    by (simp add: coefficients_def seq2_def c0_def c1_def)
  have c_pos: "0 \<le> c0" "0 \<le> c1"
    using assms(3) by (simp_all add: c0_def c1_def C1_def C2_def)
  define r where "r = adjusted_rad_eff mm pollutant erf_scaling rad_eff"
  have r_pos: "0 \<le> r"
    using assms(2,4) by (auto simp add: r_def adjusted_rad_eff_def)
  have defined: "pollutant = ''SO2'' \<and> \<not> erf_scaling \<longrightarrow> snd (mm pollutant) \<noteq> 0"
    using assms(4) by auto
  have mono: "iATP_spec r u [c0, c1] th \<le> iATP_spec r u [c0, c1] th'" if "safe_lifetime u" for u
    using that r_pos c_pos assms(5,6) by (rule iATP_spec_nondecreasing)
  show ?thesis
    using mono [OF safe(1)] mono [OF safe(2)] mono [OF safe(3)]
    by (simp add: compute_atp_defined [where mm = mm, OF assms(1) t defined] c r_def [symmetric]
        potentials_safe_scalar [OF safe(2)] potentials_safe_array [OF safe])
qed

theorem iatp_nondecreasing_witness:
  "''CH4'' \<in> set SLP \<and> (0::real) < 3 \<and> (0::real) \<le> 20 \<and> (20::real) \<le> 100
   \<and> (\<exists>iatp atp iatp' atp'.
         compute_atp (\<lambda>p. (0.5, 0.4)) (\<lambda>p. (1, 2)) ''CH4'' 3 20 True True True =
           Inr (iatp, atp)
       \<and> compute_atp (\<lambda>p. (0.5, 0.4)) (\<lambda>p. (1, 2)) ''CH4'' 3 100 True True True =
           Inr (iatp', atp')
       \<and> number_le iatp iatp')"
proof -
  have a: "''CH4'' \<in> set SLP"
    by (simp add: SLP_def)
  show ?thesis
    using a
      iatp_nondecreasing [where mm = "\<lambda>p. (1, 2)" and cs = "\<lambda>p. (0.5, 0.4)"
        and rad_eff = 3 and th = 20 and th' = 100 and c_scaling = True and erf_scaling = True
        and lifetime_range = True, OF a]
    by simp
qed

text \<open>
  C9. For a pollutant of SO2, BC, CH4, any radiative efficiency and any flags,
  \<^verbatim>\<open>compute_atp\<close> at the time horizon 0 returns 0 for both potentials: the float 0 without
  \<^verbatim>\<open>lifetime_range\<close>, three zeros with it.
\<close>

theorem zero_horizon:
  assumes "pollutant \<in> set SLP"
    and "pollutant = ''SO2'' \<and> \<not> erf_scaling \<longrightarrow> snd (mm pollutant) \<noteq> 0"
  shows "compute_atp cs mm pollutant rad_eff 0 c_scaling erf_scaling False =
           Inr (Scalar 0, Scalar 0)
       \<and> compute_atp cs mm pollutant rad_eff 0 c_scaling erf_scaling True =
           Inr (Array [0, 0, 0], Array [0, 0, 0])"
proof -
  obtain tau tau_std where
    t: "spec pollutant ''tau'' = Inr (Scalar tau)" "spec pollutant ''tau_std'' = Inr (Scalar tau_std)"
    and safe: "safe_lifetime (tau - tau_std)" "safe_lifetime tau" "safe_lifetime (tau + tau_std)"
    using lifetimes_SLP [OF assms(1)] by blast
  obtain c0 c1 where c: "coefficients cs pollutant c_scaling = [c0, c1]"
    using coefficients_pair by blast
  show ?thesis
    by (simp add: compute_atp_defined [where mm = mm, OF assms(1) t assms(2)] c
        potentials_safe_scalar [OF safe(2)] potentials_safe_array [OF safe]
        iATP_spec_zero ATP_spec_zero)
qed

theorem zero_horizon_witness:
  "''SO2'' \<in> set SLP
   \<and> compute_atp (\<lambda>p. (0.5, 0.4)) (\<lambda>p. (1, 2)) ''SO2'' (- 3) 0 True False False =
       Inr (Scalar 0, Scalar 0)
   \<and> compute_atp (\<lambda>p. (0.5, 0.4)) (\<lambda>p. (1, 2)) ''SO2'' (- 3) 0 True False True =
       Inr (Array [0, 0, 0], Array [0, 0, 0])"
proof -
  have a: "''SO2'' \<in> set SLP"
    by (simp add: SLP_def)
  show ?thesis
    using a zero_horizon [where mm = "\<lambda>p. (1, 2)" and cs = "\<lambda>p. (0.5, 0.4)"
        and rad_eff = "- 3" and c_scaling = True and erf_scaling = False, OF a]
    by simp
qed

text \<open>
  C10, as stated, fails in its last clause. The lifetimes are as the claim says, but a
  division by zero can occur through the public interface: \<^verbatim>\<open>compute_app\<close> divides
  \<^verbatim>\<open>rr_precip_avg\<close> by \<^verbatim>\<open>precip_avg\<close>, an argument of the caller, and with the floats 7 and 0
  for them the call for BC raises ZeroDivisionError.
\<close>

theorem caller_ratio_counterexample:
  "compute_app (\<lambda>p. (0.5, 0.4)) (\<lambda>p. (1, 2)) ''BC'' 3 2 20 (Scalar 7) (Scalar 0) =
     Inl ZeroDivisionError"
proof -
  have a: "''BC'' \<in> set SLP"
    by (simp add: SLP_def)
  obtain i a' where
    atp: "compute_atp (\<lambda>p. (0.5, 0.4)) (\<lambda>p. (1, 2)) ''BC'' 3 20 True True False =
            Inr (Scalar i, Scalar a')"
    using compute_atp_default [OF a] by blast
  have nz: "(6.8 / 365 :: real) \<noteq> 0"
    by simp
  show ?thesis
    by (subst compute_app_resolved [OF a spec_BC(1,3,4) nz atp])
       (simp add: py_div_def val_def)
qed

text \<open>
  C10, amended. For a pollutant of SO2, BC, CH4 the constants table holds float entries
  \<open>tau\<close> and \<open>tau_std\<close>, and each lifetime that the two functions use, \<open>tau - tau_std\<close>,
  \<open>tau\<close> and \<open>tau + tau_std\<close>, is positive and differs from both decay timescales, so that
  none of the denominators \<open>tau - D[j]\<close>, \<open>tau\<close>, \<open>D[j]\<close> is zero and no division by one of
  them fails. The divisions that can still fail are by values from outside:
  \<^verbatim>\<open>compute_atp\<close> fails only when SO2 is asked without \<^verbatim>\<open>erf_scaling\<close> and the scaling
  lookup holds a zero, and \<^verbatim>\<open>compute_app\<close> fails only where the caller's own ratio
  \<^verbatim>\<open>rr_precip_avg / precip_avg\<close> does.
\<close>

theorem lifetimes_never_singular:
  assumes "pollutant \<in> set SLP"
  shows "\<exists>tau tau_std.
           spec pollutant ''tau'' = Inr (Scalar tau)
         \<and> spec pollutant ''tau_std'' = Inr (Scalar tau_std)
         \<and> (\<forall>t \<in> set [tau - tau_std, tau, tau + tau_std].
               0 < t \<and> t \<noteq> D ! 0 \<and> t \<noteq> D ! 1 \<and> t - D ! 0 \<noteq> 0 \<and> t - D ! 1 \<noteq> 0)
         \<and> D ! 0 \<noteq> 0 \<and> D ! 1 \<noteq> 0
         \<and> (\<forall>rad_eff th c_scaling erf_scaling lifetime_range e.
               compute_atp cs mm pollutant rad_eff th c_scaling erf_scaling lifetime_range = Inl e
               \<longrightarrow> e = ZeroDivisionError \<and> pollutant = ''SO2'' \<and> \<not> erf_scaling
                   \<and> snd (mm pollutant) = 0)
         \<and> (\<forall>rad_eff rad_eff_a th rr_precip_avg precip_avg e.
               compute_app cs mm pollutant rad_eff rad_eff_a th rr_precip_avg precip_avg = Inl e
               \<longrightarrow> py_div (val rr_precip_avg) (val precip_avg) = Inl e)"
proof -
  obtain tau tau_std where
    t: "spec pollutant ''tau'' = Inr (Scalar tau)" "spec pollutant ''tau_std'' = Inr (Scalar tau_std)"
    and safe: "safe_lifetime (tau - tau_std)" "safe_lifetime tau" "safe_lifetime (tau + tau_std)"
    using lifetimes_SLP [OF assms(1)] by blast
  obtain fp k where f: "spec pollutant ''fp'' = Inr (Scalar fp)" "spec pollutant ''k'' = Inr (Scalar k)"
    using fields_SLP [OF assms(1)] by blast
  have lifetimes: "\<forall>t \<in> set [tau - tau_std, tau, tau + tau_std].
                  0 < t \<and> t \<noteq> D ! 0 \<and> t \<noteq> D ! 1 \<and> t - D ! 0 \<noteq> 0 \<and> t - D ! 1 \<noteq> 0"
    using safe by (simp add: safe_lifetime_def)
  have timescales: "D ! 0 \<noteq> 0 \<and> D ! 1 \<noteq> 0"
    by (simp add: D_def)
  have atp: "e = ZeroDivisionError \<and> pollutant = ''SO2'' \<and> \<not> erf_scaling \<and> snd (mm pollutant) = 0"
    if "compute_atp cs mm pollutant rad_eff th c_scaling erf_scaling lifetime_range = Inl e"
    for rad_eff th c_scaling erf_scaling lifetime_range e
  proof -
    obtain c0 c1 where c: "coefficients cs pollutant c_scaling = [c0, c1]"
      using coefficients_pair by blast
    show ?thesis
      using that
      by (simp add: compute_atp_resolved [OF assms(1) t] c potentials_safe_scalar [OF safe(2)]
          potentials_safe_array [OF safe] split: if_splits)
  qed
  have app: "py_div (val rr_precip_avg) (val precip_avg) = Inl e"
    if "compute_app cs mm pollutant rad_eff rad_eff_a th rr_precip_avg precip_avg = Inl e"
    for rad_eff rad_eff_a th rr_precip_avg precip_avg e
  proof -
    obtain c0 c1 where c: "coefficients cs pollutant True = [c0, c1]"
      using coefficients_pair by blast
    have "compute_atp cs mm pollutant rad_eff th True True False =
            Inr (Scalar (iATP_spec rad_eff tau [c0, c1] th), Scalar (ATP_spec rad_eff tau [c0, c1] th))"
      by (simp add: compute_atp_resolved [OF assms(1) t] c potentials_safe_scalar [OF safe(2)]
          adjusted_rad_eff_def)
    moreover have "tau \<noteq> 0"
      using safe(2) by (simp add: safe_lifetime_def)
    ultimately show ?thesis
      using that
      by (simp add: compute_app_resolved [OF assms(1) t(1) f] split: sum.splits)
  qed
  show ?thesis
    using t lifetimes timescales atp app by blast
qed

theorem lifetimes_never_singular_witness:
  "''SO2'' \<in> set SLP
   \<and> (\<exists>tau tau_std.
           spec ''SO2'' ''tau'' = Inr (Scalar tau)
         \<and> spec ''SO2'' ''tau_std'' = Inr (Scalar tau_std)
         \<and> (\<forall>t \<in> set [tau - tau_std, tau, tau + tau_std].
               0 < t \<and> t \<noteq> D ! 0 \<and> t \<noteq> D ! 1 \<and> t - D ! 0 \<noteq> 0 \<and> t - D ! 1 \<noteq> 0)
         \<and> D ! 0 \<noteq> 0 \<and> D ! 1 \<noteq> 0
         \<and> (\<forall>rad_eff th c_scaling erf_scaling lifetime_range e.
               compute_atp (\<lambda>p. (0.5, 0.4)) (\<lambda>p. (1, 2)) ''SO2'' rad_eff th c_scaling
                 erf_scaling lifetime_range \<noteq> Inl e))"
proof -
  have a: "''SO2'' \<in> set SLP"
    by (simp add: SLP_def)
  show ?thesis
    using a lifetimes_never_singular [where mm = "\<lambda>p. (1, 2)" and cs = "\<lambda>p. (0.5, 0.4)", OF a]
    by fastforce
qed

end
